theory Spec2Isabelle
  imports Complex_Main
begin

section \<open>JavaScript values\<close>

text \<open>
  A rule's \<open>value\<close> has the TypeScript type \<open>any\<close>, so the rule processor is modelled over
  a datatype of JavaScript values. A number is \<open>NaN\<close>, an infinity or a finite value; the
  only operation the processor performs on numbers is the comparison \<open>secondNum < firstNum\<close>,
  which is exact on doubles, so a finite number carries its real value.
\<close>

datatype jsnum = NaN | NegInf | Fin real | PosInf

datatype jsval =
    JUndefined
  | JNull
  | JBool bool
  | JNum jsnum
  | JStr string
  | JArr "jsval list"
  | JObj "(string \<times> jsval) list"

text \<open>The JavaScript relational operator \<open><\<close> on two numbers: false as soon as one is \<open>NaN\<close>.\<close>

fun js_lt :: "jsnum \<Rightarrow> jsnum \<Rightarrow> bool" where
  "js_lt NaN _ = False"
| "js_lt _ NaN = False"
| "js_lt NegInf NegInf = False"
| "js_lt NegInf _ = True"
| "js_lt (Fin a) NegInf = False"
| "js_lt (Fin a) (Fin b) = (a < b)"
| "js_lt (Fin a) PosInf = True"
| "js_lt PosInf _ = False"

text \<open>\<open><=\<close> on two numbers, used to state that a range's bounds are in ascending order.\<close>

definition js_le :: "jsnum \<Rightarrow> jsnum \<Rightarrow> bool" where
  "js_le a b = (a \<noteq> NaN \<and> b \<noteq> NaN \<and> (js_lt a b \<or> a = b))"

text \<open>\<open>typeof v === 'string'\<close> and \<open>typeof v === 'boolean'\<close>.\<close>

fun is_string :: "jsval \<Rightarrow> bool" where
  "is_string (JStr _) = True"
| "is_string _ = False"

fun is_boolean :: "jsval \<Rightarrow> bool" where
  "is_boolean (JBool _) = True"
| "is_boolean _ = False"

text \<open>JavaScript truthiness, as tested by \<open>!x\<close> and \<open>a && b\<close>.\<close>

fun truthy :: "jsval \<Rightarrow> bool" where
  "truthy JUndefined = False"
| "truthy JNull = False"
| "truthy (JBool b) = b"
| "truthy (JNum n) = (n \<noteq> NaN \<and> n \<noteq> Fin 0)"
| "truthy (JStr s) = (s \<noteq> [])"
| "truthy (JArr _) = True"
| "truthy (JObj _) = True"

section \<open>Helpers imported by the rule processor\<close>

text \<open>
  \<open>defaultRuleProcessorElasticSearch.ts\<close> imports \<open>toArray\<close> from \<open>../arrayUtils\<close> and
  \<open>isValidValue\<close>, \<open>shouldRenderAsNumber\<close> from \<open>./utils\<close>; it also calls the built-ins
  \<open>parseFloat\<close> and the string conversion of template literals. The three imported
  functions are not part of the sources at hand, and the two built-ins are a matter of
  floating-point parsing and printing, so all five are parameters of the model.
  \<open>numberToString\<close> is only consulted for numbers: the conversion of every other value is
  written out in \<open>templateString\<close>.
\<close>

record helpers =
  toArray :: "jsval \<Rightarrow> jsval list"
  isValidValue :: "jsval \<Rightarrow> bool"
  shouldRenderAsNumber :: "jsval \<Rightarrow> bool option \<Rightarrow> bool"
  parseFloat :: "jsval \<Rightarrow> jsnum"
  numberToString :: "jsnum \<Rightarrow> string"

text \<open>Joining strings with a separator, as \<open>Array.prototype.join\<close> does.\<close>

fun joinWith :: "string \<Rightarrow> string list \<Rightarrow> string" where
  "joinWith sep [] = []"
| "joinWith sep [x] = x"
| "joinWith sep (x # y # ys) = x @ sep @ joinWith sep (y # ys)"

text \<open>
  The string a template literal \<open>`${v}`\<close> produces: a string is itself, an array is its
  elements joined by commas with \<open>null\<close> and \<open>undefined\<close> elements left empty, a plain object
  is \<open>[object Object]\<close>.
\<close>

fun templateString :: "(jsnum \<Rightarrow> string) \<Rightarrow> jsval \<Rightarrow> string" where
  "templateString num JUndefined = ''undefined''"
| "templateString num JNull = ''null''"
| "templateString num (JBool b) = (if b then ''true'' else ''false'')"
| "templateString num (JNum n) = num n"
| "templateString num (JStr s) = s"
| "templateString num (JArr xs) =
     joinWith '',''
       (map (\<lambda>x. if x = JUndefined \<or> x = JNull then [] else templateString num x) xs)"
| "templateString num (JObj _) = ''[object Object]''"

section \<open>The rule and the Elasticsearch output\<close>

datatype ValueSource = VSValue | VSField

text \<open>
  The properties rules and groups share: \<open>path\<close>, \<open>id\<close> (called \<open>ident\<close> here) and
  \<open>disabled\<close>, all optional.
\<close>

record CommonProps =
  path :: "nat list option"
  ident :: "string option"
  disabled :: "bool option"

text \<open>
  \<open>RuleType\<close>: \<open>valueSource\<close> is optional and \<open>None\<close> stands for \<open>undefined\<close>. The
  property \<open>value\<close> is called \<open>val\<close> here.
\<close>

record RuleType = CommonProps +
  field :: string
  operator :: string
  val :: jsval
  valueSource :: "ValueSource option"

datatype RangeOperator = gt | gte | lt | lte

text \<open>
  \<open>ElasticSearchRule\<close> and the shapes of \<open>ElasticSearchQuery\<close> the rule processor builds:
  \<open>{range: {[field]: {op: v, ...}}}\<close>, \<open>{term: {[field]: v}}\<close>, \<open>{exists: {field}}\<close>,
  \<open>{regexp: {[field]: {value}}}\<close>, \<open>{bool: {filter: {script: {script}}}}\<close>,
  \<open>{bool: {must_not: x}}\<close> with one clause or with an array, and \<open>{bool: {should: [...]}}\<close>.
\<close>

datatype ElasticSearchQuery =
    ESRange string "(RangeOperator \<times> jsval) list"
  | ESTerm string jsval
  | ESExists string
  | ESRegexp string jsval
  | BoolFilterScript string
  | BoolMustNot ElasticSearchQuery
  | BoolMustNotArray "ElasticSearchQuery list"
  | BoolShouldArray "ElasticSearchQuery list"

text \<open>The processor returns \<open>false\<close> to omit the rule, or a query.\<close>

datatype processed = RFalse | RQuery ElasticSearchQuery

datatype error = TypeError

section \<open>The Elasticsearch rule processor\<close>

definition sq :: char where
  "sq = CHR 0x27"

definition backslash :: char where
  "backslash = CHR 0x5C"

text \<open>\<open>rangeOperatorMap\<close>, on the four operators the \<open>switch\<close> sends to it.\<close>

definition rangeOperatorMap :: "string \<Rightarrow> RangeOperator" where
  "rangeOperatorMap op =
     (if op = ''<'' then lt else if op = ''<='' then lte else if op = ''>'' then gt else gte)"

text \<open>ASCII lower case, for the \<open>i\<close> flag of the regular expression in \<open>negateIfNotOp\<close>.\<close>

definition lowerChar :: "char \<Rightarrow> char" where
  "lowerChar c =
     (case map_of (zip ''ABCDEFGHIJKLMNOPQRSTUVWXYZ'' ''abcdefghijklmnopqrstuvwxyz'') c of
        Some d \<Rightarrow> d
      | None \<Rightarrow> c)"

definition startsWithStr :: "string \<Rightarrow> string \<Rightarrow> bool" where
  "startsWithStr p s = (take (length p) s = p)"

text \<open>\<open>/^(does)?not/i.test(op)\<close>.\<close>

definition isNotOp :: "string \<Rightarrow> bool" where
  "isNotOp op =
     (startsWithStr ''not'' (map lowerChar op) \<or> startsWithStr ''doesnot'' (map lowerChar op))"

definition negateIfNotOp :: "string \<Rightarrow> ElasticSearchQuery \<Rightarrow> ElasticSearchQuery" where
  "negateIfNotOp op elasticSearchRule =
     (if isNotOp op then BoolMustNot elasticSearchRule else elasticSearchRule)"

text \<open>
  \<open>escapeSQ\<close> is \<open>s?.replace(/('|\\)/g, `\\$1`)\<close>: on a string every single quote and every
  backslash gets a backslash in front; on \<open>undefined\<close> and \<open>null\<close> the optional chaining
  gives \<open>undefined\<close>; any other value has no \<open>replace\<close> method and the call throws.
\<close>

definition escapeChar :: "char \<Rightarrow> string" where
  "escapeChar c = (if c = sq \<or> c = backslash then [backslash, c] else [c])"

definition escapeSQ_string :: "string \<Rightarrow> string" where
  "escapeSQ_string s = concat (map escapeChar s)"

fun escapeSQ :: "jsval \<Rightarrow> error + jsval" where
  "escapeSQ (JStr s) = Inr (JStr (escapeSQ_string s))"
| "escapeSQ JUndefined = Inr JUndefined"
| "escapeSQ JNull = Inr JUndefined"
| "escapeSQ _ = Inl TypeError"

text \<open>\<open>textFunctionMap[o] ?? o\<close>.\<close>

definition textFunction :: "string \<Rightarrow> string" where
  "textFunction op =
     (if op = ''beginsWith'' then ''startsWith''
      else if op = ''doesNotContain'' then ''contains''
      else if op = ''doesNotBeginWith'' then ''startsWith''
      else if op = ''doesNotEndWith'' then ''endsWith''
      else op)"

definition docRef :: "string \<Rightarrow> string" where
  "docRef f = ''doc['' @ [sq] @ f @ [sq] @ '']''"

definition getTextScript :: "string \<Rightarrow> string \<Rightarrow> string \<Rightarrow> string" where
  "getTextScript f op v =
     (let script = docRef f @ ''.'' @ textFunction op @ ''('' @ docRef v @ '')''
      in if startsWithStr ''d'' op then ''!'' @ script else script)"

definition comparisonOperators :: "string list" where
  "comparisonOperators = [''='', ''!='', ''>'', ''>='', ''<'', ''<='']"

definition textOperators :: "string list" where
  "textOperators =
     [''contains'', ''doesNotContain'', ''beginsWith'', ''doesNotBeginWith'',
      ''endsWith'', ''doesNotEndWith'']"

text \<open>
  The first \<open>switch\<close>, entered when \<open>valueSource === 'field'\<close>. \<open>Some\<close> is a \<open>return\<close> (or
  a thrown error); \<open>None\<close> means that no \<open>case\<close> matched and control falls out of the \<open>if\<close>
  into the second \<open>switch\<close>.
\<close>

definition fieldSourceBranch :: "helpers \<Rightarrow> RuleType \<Rightarrow> (error + processed) option" where
  "fieldSourceBranch h r =
     (if \<exists>v \<in> set (toArray h (val r)). \<not> is_string v then Some (Inr RFalse)
      else
        let fieldForScript = escapeSQ_string (field r);
            num = numberToString h
        in
        if operator r \<in> set comparisonOperators then
          (let operatorForScript = (if operator r = ''='' then ''=='' else operator r)
           in case escapeSQ (val r) of
                Inl e \<Rightarrow> Some (Inl e)
              | Inr valueForScript \<Rightarrow>
                  if \<not> truthy valueForScript then Some (Inr RFalse)
                  else Some (Inr (RQuery (BoolFilterScript
                         (docRef fieldForScript @ '' '' @ operatorForScript @ '' '' @
                          docRef (templateString num valueForScript))))))
        else if operator r = ''in'' \<or> operator r = ''notIn'' then
          (let valueAsArray = toArray h (val r)
           in if length valueAsArray > 0 then
                (let arr = map (\<lambda>v. BoolFilterScript
                              (docRef fieldForScript @ '' == '' @ docRef (templateString num v)))
                             valueAsArray
                 in Some (Inr (RQuery (if operator r = ''in'' then BoolShouldArray arr
                                       else BoolMustNotArray arr))))
              else Some (Inr RFalse))
        else if operator r = ''between'' \<or> operator r = ''notBetween'' then
          (let valueAsArray = toArray h (val r)
           in if length valueAsArray \<ge> 2 \<and> truthy (valueAsArray ! 0) \<and> truthy (valueAsArray ! 1)
              then
                (let script = docRef fieldForScript @ '' >= '' @
                              docRef (templateString num (valueAsArray ! 0)) @ '' && '' @
                              docRef fieldForScript @ '' <= '' @
                              docRef (templateString num (valueAsArray ! 1))
                 in Some (Inr (RQuery (BoolFilterScript
                      (if operator r = ''notBetween'' then ''!('' @ script @ '')'' else script)))))
              else Some (Inr RFalse))
        else if operator r \<in> set textOperators then
          (case escapeSQ (val r) of
             Inl e \<Rightarrow> Some (Inl e)
           | Inr valueForScript \<Rightarrow>
               if \<not> truthy valueForScript then Some (Inr RFalse)
               else Some (Inr (RQuery (BoolFilterScript
                      (getTextScript fieldForScript (operator r)
                         (templateString num valueForScript))))))
        else None)"

text \<open>
  \<open>valueRenderer\<close>: the test \<open>typeof value === 'boolean'\<close> looks at the rule's value, the
  rest at the argument \<open>v\<close>.
\<close>

definition valueRenderer :: "helpers \<Rightarrow> jsval \<Rightarrow> bool option \<Rightarrow> jsval \<Rightarrow> jsval" where
  "valueRenderer h value parseNumbers v =
     (if is_boolean value then value
      else if shouldRenderAsNumber h v parseNumbers then JNum (parseFloat h v)
      else v)"

text \<open>The second \<open>switch\<close>, with the final \<open>return false\<close>.\<close>

definition valueSourceBranch :: "helpers \<Rightarrow> RuleType \<Rightarrow> bool option \<Rightarrow> processed" where
  "valueSourceBranch h r parseNumbers =
     (let render = valueRenderer h (val r) parseNumbers
      in
      if operator r \<in> {''<'', ''<='', ''>'', ''>=''} then
        RQuery (ESRange (field r) [(rangeOperatorMap (operator r), render (val r))])
      else if operator r = ''='' then RQuery (ESTerm (field r) (render (val r)))
      else if operator r = ''!='' then RQuery (BoolMustNot (ESTerm (field r) (render (val r))))
      else if operator r = ''null'' then RQuery (BoolMustNot (ESExists (field r)))
      else if operator r = ''notNull'' then RQuery (ESExists (field r))
      else if operator r = ''in'' \<or> operator r = ''notIn'' then
        (let valueAsArray = map render (toArray h (val r))
         in if length valueAsArray > 0 then
              (let arr = map (\<lambda>v. ESTerm (field r) (render v)) valueAsArray
               in RQuery (if operator r = ''in'' then BoolShouldArray arr
                          else BoolMustNotArray arr))
            else RFalse)
      else if operator r = ''between'' \<or> operator r = ''notBetween'' then
        (let valueAsArray = toArray h (val r)
         in if length valueAsArray \<ge> 2 \<and> isValidValue h (valueAsArray ! 0)
                 \<and> isValidValue h (valueAsArray ! 1)
            then
              (let first = valueAsArray ! 0;
                   second = valueAsArray ! 1;
                   (first', second') =
                     (if shouldRenderAsNumber h first (Some True)
                         \<and> shouldRenderAsNumber h second (Some True)
                      then
                        (let firstNum = parseFloat h first;
                             secondNum = parseFloat h second
                         in if js_lt secondNum firstNum then (JNum secondNum, JNum firstNum)
                            else (JNum firstNum, JNum secondNum))
                      else (first, second))
               in RQuery (negateIfNotOp (operator r)
                    (ESRange (field r) [(gte, first'), (lte, second')])))
            else RFalse)
      else if operator r = ''contains'' \<or> operator r = ''doesNotContain'' then
        RQuery (negateIfNotOp (operator r) (ESRegexp (field r) (val r)))
      else if operator r = ''beginsWith'' \<or> operator r = ''doesNotBeginWith'' then
        RQuery (negateIfNotOp (operator r)
          (ESRegexp (field r) (JStr (''^'' @ templateString (numberToString h) (val r)))))
      else if operator r = ''endsWith'' \<or> operator r = ''doesNotEndWith'' then
        RQuery (negateIfNotOp (operator r)
          (ESRegexp (field r) (JStr (templateString (numberToString h) (val r) @ ''$''))))
      else RFalse)"

text \<open>
  \<open>defaultRuleProcessorElasticSearch\<close>: the second argument is the \<open>parseNumbers\<close> member
  of the options object, \<open>None\<close> when it is absent.
\<close>

definition defaultRuleProcessorElasticSearch ::
  "helpers \<Rightarrow> RuleType \<Rightarrow> bool option \<Rightarrow> error + processed" where
  "defaultRuleProcessorElasticSearch h r parseNumbers =
     (case (if valueSource r = Some VSField then fieldSourceBranch h r else None) of
        Some res \<Rightarrow> res
      | None \<Rightarrow> Inr (valueSourceBranch h r parseNumbers))"

text \<open>The operators for which one of the two \<open>switch\<close> statements has a \<open>case\<close>.\<close>

definition supportedOperators :: "string list" where
  "supportedOperators =
     [''='', ''!='', ''<'', ''<='', ''>'', ''>='', ''null'', ''notNull'', ''in'', ''notIn'',
      ''between'', ''notBetween'', ''contains'', ''doesNotContain'', ''beginsWith'',
      ''doesNotBeginWith'', ''endsWith'', ''doesNotEndWith'']"

text \<open>
  The test a \<open>between\<close>/\<open>notBetween\<close> rule has to pass before a range or a script is built:
  the value, as an array, has two elements or more, and the first two are valid. With
  \<open>valueSource === 'field'\<close> the code tests them for truthiness, otherwise with
  \<open>isValidValue\<close>.
\<close>

definition hasTwoValidValues :: "helpers \<Rightarrow> RuleType \<Rightarrow> bool" where
  "hasTwoValidValues h r =
     (let valueAsArray = toArray h (val r)
      in if valueSource r = Some VSField
         then length valueAsArray \<ge> 2 \<and> truthy (valueAsArray ! 0) \<and> truthy (valueAsArray ! 1)
         else length valueAsArray \<ge> 2 \<and> isValidValue h (valueAsArray ! 0)
                \<and> isValidValue h (valueAsArray ! 1))"

text \<open>
  Numeric coercion in the spec's words (4.4): a value that matches the numeric test is
  rendered through float parsing, any other value is rendered unchanged. The test is
  \<open>shouldRenderAsNumber\<close> with \<open>parseNumbers\<close> set.
\<close>

definition renderedAsNumber :: "helpers \<Rightarrow> jsval \<Rightarrow> jsval" where
  "renderedAsNumber h v =
     (if shouldRenderAsNumber h v (Some True) then JNum (parseFloat h v) else v)"

text \<open>
  One concrete choice of the helpers, for evaluating the processor on examples: an array
  is itself, a non-empty string is a one-element array, the numeric test accepts numbers
  and the strings \<open>12\<close> and \<open>7\<close>, and a number parses to itself.
\<close>

definition exampleHelpers :: helpers where
  "exampleHelpers =
     \<lparr> toArray = (\<lambda>v. case v of JArr xs \<Rightarrow> xs
                             | JStr s \<Rightarrow> (if s = [] then [] else [JStr s])
                             | _ \<Rightarrow> []),
       isValidValue = (\<lambda>v. case v of JStr s \<Rightarrow> s \<noteq> [] | JNum n \<Rightarrow> n \<noteq> NaN | _ \<Rightarrow> True),
       shouldRenderAsNumber =
         (\<lambda>v p. p = Some True
                \<and> (case v of JNum n \<Rightarrow> True | JStr s \<Rightarrow> s = ''12'' \<or> s = ''7'' | _ \<Rightarrow> False)),
       parseFloat =
         (\<lambda>v. case v of JNum n \<Rightarrow> n
                      | JStr s \<Rightarrow> (if s = ''12'' then Fin 12 else if s = ''7'' then Fin 7 else NaN)
                      | _ \<Rightarrow> NaN),
       numberToString = (\<lambda>n. ''NaN'') \<rparr>"

definition exampleRule :: "string \<Rightarrow> jsval \<Rightarrow> ValueSource option \<Rightarrow> RuleType" where
  "exampleRule op v vs =
     \<lparr> path = None, ident = None, disabled = None, field = ''age'', operator = op,
       val = v, valueSource = vs \<rparr>"

section \<open>The query tree\<close>

text \<open>
  \<open>RuleGroupType\<close> and \<open>RuleGroupTypeIC\<close>: a group with a \<open>combinator\<close> is in combinator
  form; a group without one (\<open>combinator?: undefined\<close>) uses independent combinators, and
  its \<open>rules\<close> array then holds combinator strings between its rules and groups.
  \<open>combinatorPreceding\<close> belongs to \<open>RuleGroupTypeIC\<close>.
\<close>

record GroupProps = CommonProps +
  combinator :: "string option"
  not :: "bool option"
  combinatorPreceding :: "string option"

text \<open>An element of a \<open>rules\<close> array, and the query itself (a \<open>RuleGroup\<close>).\<close>

datatype RuleOrGroup =
    Rule RuleType
  | RuleGroup GroupProps "RuleOrGroup list"
  | CombinatorString string

type_synonym Path = "nat list"

fun isNode :: "RuleOrGroup \<Rightarrow> bool" where
  "isNode (Rule _) = True"
| "isNode (RuleGroup _ _) = True"
| "isNode (CombinatorString _) = False"

text \<open>
  Modelled from the spec: \<open>MappedTuple\<close> comes from \<open>ruleGroupsIC.utils\<close>, which is not
  part of the sources at hand. The spec (3) and \<open>misc.mdx\<close> describe the arrays of an
  independent-combinator group as alternating between a rule or group and a combinator
  string, so \<open>MappedTuple<[C, R | RG]>\<close> is taken to repeat the pair \<open>[C, R | RG]\<close>.
\<close>

fun combinatorPairs :: "RuleOrGroup list \<Rightarrow> bool" where
  "combinatorPairs [] = True"
| "combinatorPairs [x] = False"
| "combinatorPairs (c # x # rest) = (\<not> isNode c \<and> isNode x \<and> combinatorPairs rest)"

text \<open>
  \<open>RuleGroupICArray\<close> is \<open>[R | RG] | [R | RG, ...MappedTuple<[C, R | RG]>] |
  ((R | RG)[] & {length: 0})\<close>: empty, or a rule or group followed by pairs of a combinator
  and a rule or group.
\<close>

fun isRuleGroupICArray :: "RuleOrGroup list \<Rightarrow> bool" where
  "isRuleGroupICArray [] = True"
| "isRuleGroupICArray (x # rest) = (isNode x \<and> combinatorPairs rest)"

section \<open>Path utilities\<close>

text \<open>
  Modelled from the spec: \<open>getParentPath\<close>, \<open>isAncestor\<close> and \<open>pathsAreEqual\<close> are imported
  from \<open>react-querybuilder\<close> by \<open>useRuleDnD.ts\<close> and are not part of the sources at hand.
  The spec (4.1) gives them as: \<open>getParentPath(path)\<close> drops the last element, the parent of
  the empty path being the empty path; \<open>isAncestor(a, b)\<close> is true iff \<open>a\<close> is a strict
  prefix of \<open>b\<close>; \<open>pathsAreEqual(a, b)\<close> is element-wise equality.
\<close>

definition getParentPath :: "Path \<Rightarrow> Path" where
  "getParentPath p = butlast p"

definition isAncestor :: "Path \<Rightarrow> Path \<Rightarrow> bool" where
  "isAncestor a b = (length a < length b \<and> take (length a) b = a)"

definition pathsAreEqual :: "Path \<Rightarrow> Path \<Rightarrow> bool" where
  "pathsAreEqual a b = list_all2 (=) a b"

section \<open>The drop test of the rule drag-and-drop hook\<close>

text \<open>\<open>path[path.length - 1]\<close>: \<open>undefined\<close> on the empty path.\<close>

definition lastIndex :: "Path \<Rightarrow> nat option" where
  "lastIndex p = (if p = [] then None else Some (last p))"

text \<open>\<open>hoverIndex === itemIndex - k\<close>: with an \<open>undefined\<close> operand the difference is \<open>NaN\<close>.\<close>

definition indexIsBefore :: "nat option \<Rightarrow> nat option \<Rightarrow> int \<Rightarrow> bool" where
  "indexIsBefore hoverIndex itemIndex k =
     (case (hoverIndex, itemIndex) of
        (Some h, Some i) \<Rightarrow> int h = int i - k
      | _ \<Rightarrow> False)"

text \<open>
  \<open>DraggedItem\<close> is declared outside the sources at hand; the drop test reads its \<open>path\<close>
  only (\<open>itemPath\<close> here), and whatever else an item carries is the record's extension.
\<close>

record DraggedItem =
  itemPath :: Path

text \<open>
  The \<open>canDrop\<close> function \<open>useRuleDnD\<close> hands to \<open>useDrop\<close>. \<open>hoverPath\<close> is the hook's
  \<open>path\<close>, the path of the rule hovered over; \<open>item\<close> is the dragged item; \<open>canDrop\<close> is the
  optional function of the context, called with the item and the path, and
  \<open>independentCombinators\<close> the optional flag.
\<close>

definition useRuleDnD_canDrop ::
  "('a DraggedItem_scheme \<Rightarrow> Path \<Rightarrow> bool) option \<Rightarrow> bool option \<Rightarrow> Path
     \<Rightarrow> 'a DraggedItem_scheme \<Rightarrow> bool" where
  "useRuleDnD_canDrop canDrop independentCombinators hoverPath item =
     (if (case canDrop of Some f \<Rightarrow> \<not> f item hoverPath | None \<Rightarrow> False) then False
      else
        let parentHoverPath = getParentPath hoverPath;
            parentItemPath = getParentPath (itemPath item);
            hoverIndex = lastIndex hoverPath;
            itemIndex = lastIndex (itemPath item)
        in \<not> (isAncestor (itemPath item) hoverPath \<or>
               (pathsAreEqual parentHoverPath parentItemPath \<and>
                 (hoverIndex = itemIndex \<or>
                  indexIsBefore hoverIndex itemIndex 1 \<or>
                  (independentCombinators = Some True \<and> indexIsBefore hoverIndex itemIndex 2)))))"

section \<open>Structural operations\<close>

text \<open>
  \<open>findPath\<close>, \<open>add\<close>, \<open>remove\<close>, \<open>update\<close> and \<open>move\<close> are not part of the sources at hand
  (only their documentation in \<open>misc.mdx\<close> is); the definitions of this section follow the
  spec (3, 4.2, 6, 9).
\<close>

text \<open>
  Modelled from the spec: a path is followed from the root, \<open>path[i]\<close> being the child index
  at depth \<open>i\<close>; the empty path is the root.
\<close>

fun elementAt :: "Path \<Rightarrow> RuleOrGroup \<Rightarrow> RuleOrGroup option" where
  "elementAt [] q = Some q"
| "elementAt (i # p) (RuleGroup g rs) = (if i < length rs then elementAt p (rs ! i) else None)"
| "elementAt (i # p) _ = None"

text \<open>
  Modelled from the spec: \<open>findPath(path, query) -> rule | group | undefined\<close> is the
  element at the path when that is a rule or a group.
\<close>

definition findPath :: "Path \<Rightarrow> RuleOrGroup \<Rightarrow> RuleOrGroup option" where
  "findPath p query =
     (case elementAt p query of
        Some (CombinatorString _) \<Rightarrow> None
      | found \<Rightarrow> found)"

text \<open>
  Modelled from the spec: every structural operation returns a new root, copying the
  groups along the path and reusing everything else (9). \<open>replaceAt p f q\<close> rebuilds \<open>q\<close>
  with \<open>f\<close> applied to the element at \<open>p\<close>.
\<close>

fun replaceAt :: "Path \<Rightarrow> (RuleOrGroup \<Rightarrow> RuleOrGroup) \<Rightarrow> RuleOrGroup \<Rightarrow> RuleOrGroup" where
  "replaceAt [] f q = f q"
| "replaceAt (i # p) f (RuleGroup g rs) =
     (if i < length rs then RuleGroup g (rs[i := replaceAt p f (rs ! i)]) else RuleGroup g rs)"
| "replaceAt (i # p) f q = q"

text \<open>
  Modelled from the spec: the combinator \<open>add\<close> and \<open>move\<close> insert is the first of
  \<open>opts.combinators\<close>, else the first default combinator; the defaults are \<open>and\<close>, \<open>or\<close>.
\<close>

definition defaultCombinators :: "string list" where
  "defaultCombinators = [''and'', ''or'']"

record AddOptions =
  combinators :: "string list option"

definition getFirstOption :: "string list option \<Rightarrow> string" where
  "getFirstOption cs =
     (case cs of
        Some (c # _) \<Rightarrow> c
      | _ \<Rightarrow> hd defaultCombinators)"

text \<open>
  Modelled from the spec: the new item becomes the last child of the group; in an
  independent-combinator group whose \<open>rules\<close> array is not empty a combinator string is
  inserted before the new item.
\<close>

fun appendChild :: "string \<Rightarrow> RuleOrGroup \<Rightarrow> RuleOrGroup \<Rightarrow> RuleOrGroup" where
  "appendChild c x (RuleGroup g rs) =
     RuleGroup g (rs @ (if combinator g = None \<and> rs \<noteq> [] then [CombinatorString c] else []) @ [x])"
| "appendChild c x q = q"

text \<open>
  Modelled from the spec: \<open>add(tree, ruleOrGroup, path, opts)\<close>. \<open>path\<close> addresses the target
  parent group and the new item becomes its last child. A path that does not address an
  existing group leaves the tree unchanged.
\<close>

definition add :: "RuleOrGroup \<Rightarrow> RuleOrGroup \<Rightarrow> Path \<Rightarrow> AddOptions \<Rightarrow> RuleOrGroup" where
  "add query ruleOrGroup p opts =
     replaceAt p (appendChild (getFirstOption (combinators opts)) ruleOrGroup) query"

text \<open>
  Modelled from the spec: deleting the rule or group at an index of a group. In an
  independent-combinator group the adjacent combinator goes with it: the following one
  when the first element is deleted, the preceding one otherwise. Removing the last
  remaining item leaves an empty array.
\<close>

fun removeChild :: "nat \<Rightarrow> RuleOrGroup \<Rightarrow> RuleOrGroup" where
  "removeChild i (RuleGroup g rs) =
     (if i < length rs \<and> isNode (rs ! i) then
        (if combinator g = None then
           (if i = 0 then RuleGroup g (drop 2 rs)
            else RuleGroup g (take (i - 1) rs @ drop (Suc i) rs))
         else RuleGroup g (take i rs @ drop (Suc i) rs))
      else RuleGroup g rs)"
| "removeChild i q = q"

text \<open>
  Modelled from the spec: \<open>remove(tree, path)\<close> deletes the rule or group at \<open>path\<close> from its
  parent group. The root has no parent to be deleted from.
\<close>

definition remove :: "RuleOrGroup \<Rightarrow> Path \<Rightarrow> RuleOrGroup" where
  "remove query p =
     (if p = [] then query else replaceAt (getParentPath p) (removeChild (last p)) query)"








text \<open>
  Modelled from the spec: \<open>move(tree, oldPath, newPath, opts)\<close> relocates the node at
  \<open>oldPath\<close> to the position \<open>newPath\<close> names, or with \<open>opts.clone\<close> inserts a duplicate with a
  new identity there. Removing the source shifts its later siblings, so \<open>newPath\<close> is
  reinterpreted against the tree after the removal. Moving a node into one of its own
  descendants is rejected, and so is cloning the root. The spec says that in an
  independent-combinator group the combinators follow the rule of \<open>remove\<close> and \<open>add\<close>,
  without fixing where the combinator goes at each target index, and it does not say how
  a new identity is made: both are parameters (\<open>insertIC\<close>, \<open>regenerateIDs\<close>).
\<close>

record MoveOptions = AddOptions +
  clone :: "bool option"

record MoveParams =
  regenerateIDs :: "RuleOrGroup \<Rightarrow> RuleOrGroup"
  insertIC :: "RuleOrGroup list \<Rightarrow> nat \<Rightarrow> string \<Rightarrow> RuleOrGroup \<Rightarrow> RuleOrGroup list"

text \<open>Modelled from the spec: whether the group at a path uses independent combinators.\<close>

definition groupIsIC :: "Path \<Rightarrow> RuleOrGroup \<Rightarrow> bool" where
  "groupIsIC p query =
     (case findPath p query of
        Some (RuleGroup g _) \<Rightarrow> combinator g = None
      | _ \<Rightarrow> False)"

text \<open>
  Modelled from the spec: \<open>newPath\<close> against the tree without the node at \<open>oldPath\<close>. When
  \<open>newPath\<close> passes through a later sibling of the removed node, that index moves down by
  the number of elements the removal took out (two in an independent-combinator group,
  one otherwise).
\<close>

definition reinterpretPath :: "nat \<Rightarrow> Path \<Rightarrow> Path \<Rightarrow> Path" where
  "reinterpretPath removed oldPath newPath =
     (let d = length oldPath - 1
      in if oldPath \<noteq> [] \<and> d < length newPath \<and> take d newPath = take d oldPath
            \<and> newPath ! d > oldPath ! d
         then newPath[d := newPath ! d - removed]
         else newPath)"

text \<open>
  Modelled from the spec: inserting an item at an index of a group; in a non-empty
  independent-combinator group the placement of item and combinator is \<open>insertIC\<close>.
\<close>

fun insertChild :: "MoveParams \<Rightarrow> string \<Rightarrow> nat \<Rightarrow> RuleOrGroup \<Rightarrow> RuleOrGroup \<Rightarrow> RuleOrGroup" where
  "insertChild P c i x (RuleGroup g rs) =
     (if combinator g = None \<and> rs \<noteq> [] then RuleGroup g (insertIC P rs i c x)
      else RuleGroup g (take i rs @ [x] @ drop i rs))"
| "insertChild P c i x q = q"

text \<open>
  Modelled from the spec: \<open>move\<close>. The guards come first: cloning the root, a target below
  the node moved, the root as a target, a source that is no rule or group. A target whose
  parent is not a group leaves the tree unchanged.
\<close>

definition move ::
  "MoveParams \<Rightarrow> RuleOrGroup \<Rightarrow> Path \<Rightarrow> Path \<Rightarrow> MoveOptions \<Rightarrow> RuleOrGroup" where
  "move P query oldPath newPath opts =
     (if clone opts = Some True \<and> oldPath = [] then query
      else if isAncestor oldPath newPath then query
      else if newPath = [] then query
      else
        case findPath oldPath query of
          None \<Rightarrow> query
        | Some node \<Rightarrow>
            let cloning = (clone opts = Some True);
                item = (if cloning then regenerateIDs P node else node);
                without = (if cloning then query else remove query oldPath);
                removed = (if groupIsIC (getParentPath oldPath) query then 2 else 1);
                target = (if cloning then newPath else reinterpretPath removed oldPath newPath)
            in case findPath (getParentPath target) without of
                 Some (RuleGroup g rs) \<Rightarrow>
                   replaceAt (getParentPath target)
                     (insertChild P (getFirstOption (combinators opts)) (last target) item)
                     without
               | _ \<Rightarrow> query)"

section \<open>Export to SQL\<close>

text \<open>
  Modelled from the spec: \<open>formatQuery\<close> is not part of the sources at hand; the
  definitions of this section follow the spec (4.4) for the format \<open>sql\<close>. The walk is
  depth-first. A rule whose \<open>field\<close> or \<open>operator\<close> is the placeholder (\<open>~\<close> by default) is
  skipped; any other rule goes to the rule processor, which returns the fragment, empty
  to omit the rule. A group formats its children, joins them with the combinator syntax
  of the format and wraps the result in the negation syntax when \<open>not\<close> is set; a group
  with no usable child, or one the validator marks invalid, is rendered as
  \<open>fallbackExpression\<close>, which defaults to \<open>(1 = 1)\<close> (also stated with the option in
  \<open>importExport.ts\<close>). The rule processor of the format and its combinator and negation
  syntax are parameters.
\<close>

record FormatQueryOptions =
  ruleProcessor :: "(RuleType \<Rightarrow> string) option"
  validator :: "(RuleOrGroup \<Rightarrow> bool) option"
  fallbackExpression :: "string option"
  placeholderFieldName :: "string option"
  placeholderOperatorName :: "string option"

record SqlSyntax =
  defaultRuleProcessorSQL :: "RuleType \<Rightarrow> string"
  joinWithCombinators :: "string option \<Rightarrow> (string + string) list \<Rightarrow> string"
  negation :: "string \<Rightarrow> string"

text \<open>Modelled from the spec: the fallback expression and its default for the SQL formats.\<close>

definition fallbackOf :: "FormatQueryOptions \<Rightarrow> string" where
  "fallbackOf opts = (case fallbackExpression opts of Some f \<Rightarrow> f | None \<Rightarrow> ''(1 = 1)'')"

text \<open>Modelled from the spec: the placeholder test on a rule.\<close>

definition isPlaceholder :: "FormatQueryOptions \<Rightarrow> RuleType \<Rightarrow> bool" where
  "isPlaceholder opts r =
     (field r = (case placeholderFieldName opts of Some n \<Rightarrow> n | None \<Rightarrow> ''~'')
      \<or> operator r = (case placeholderOperatorName opts of Some n \<Rightarrow> n | None \<Rightarrow> ''~''))"

text \<open>
  Modelled from the spec: a usable child is one rendered to a non-empty fragment (\<open>Inr\<close>);
  \<open>Inl\<close> is a combinator string of an independent-combinator group, kept for the join.
\<close>

fun usable :: "string + string \<Rightarrow> bool" where
  "usable (Inr fragment) = (fragment \<noteq> [])"
| "usable (Inl c) = False"

fun keepPart :: "string + string \<Rightarrow> bool" where
  "keepPart (Inr fragment) = (fragment \<noteq> [])"
| "keepPart (Inl c) = True"

text \<open>Modelled from the spec: the depth-first walk of \<open>formatQuery\<close> for the format \<open>sql\<close>.\<close>

fun formatSQL :: "SqlSyntax \<Rightarrow> FormatQueryOptions \<Rightarrow> RuleOrGroup \<Rightarrow> string + string" where
  "formatSQL S opts (CombinatorString c) = Inl c"
| "formatSQL S opts (Rule r) =
     Inr (if isPlaceholder opts r then []
          else (case ruleProcessor opts of
                  Some process \<Rightarrow> process r
                | None \<Rightarrow> defaultRuleProcessorSQL S r))"
| "formatSQL S opts (RuleGroup g rs) =
     Inr (if (case validator opts of Some valid \<Rightarrow> \<not> valid (RuleGroup g rs) | None \<Rightarrow> False)
          then fallbackOf opts
          else
            let parts = filter keepPart (map (formatSQL S opts) rs)
            in if filter usable parts = [] then fallbackOf opts
               else (if not g = Some True then negation S else (\<lambda>s. s))
                      (joinWithCombinators S (combinator g) parts))"

text \<open>Modelled from the spec: \<open>formatQuery(query, {format: "sql", ...})\<close>.\<close>

definition formatQuery_sql :: "SqlSyntax \<Rightarrow> FormatQueryOptions \<Rightarrow> RuleOrGroup \<Rightarrow> string" where
  "formatQuery_sql S opts query = (case formatSQL S opts query of Inr s \<Rightarrow> s | Inl c \<Rightarrow> c)"

text \<open>The options \<open>{format: "sql"}\<close>: nothing else is set.\<close>

definition sqlOptions :: FormatQueryOptions where
  "sqlOptions =
     \<lparr> ruleProcessor = None, validator = None, fallbackExpression = None,
       placeholderFieldName = None, placeholderOperatorName = None \<rparr>"

text \<open>A group \<open>{combinator: c, rules: rs}\<close> with no other property set.\<close>

definition plainGroup :: "string \<Rightarrow> RuleOrGroup list \<Rightarrow> RuleOrGroup" where
  "plainGroup c rs =
     RuleGroup \<lparr> path = None, ident = None, disabled = None, combinator = Some c,
                 not = None, combinatorPreceding = None \<rparr> rs"

section \<open>Example queries\<close>


definition ruleA :: RuleOrGroup where
  "ruleA = Rule (exampleRule ''='' (JStr ''Steve'') None)"

definition ruleB :: RuleOrGroup where
  "ruleB = Rule (exampleRule ''<'' (JStr ''12'') None)"

text \<open>\<open>{combinator: 'and', rules: [A, {combinator: 'or', rules: [B]}]}\<close>.\<close>

definition exampleQuery :: RuleOrGroup where
  "exampleQuery = plainGroup ''and'' [ruleA, plainGroup ''or'' [ruleB]]"

definition exampleMoveParams :: MoveParams where
  "exampleMoveParams =
     \<lparr> regenerateIDs = (\<lambda>x. x),
       insertIC = (\<lambda>rs i c x. take i rs @ [CombinatorString c, x] @ drop i rs) \<rparr>"


section \<open>The independent-combinator invariant\<close>

text \<open>
  A tree in independent-combinator form: no group has a \<open>combinator\<close>, and every \<open>rules\<close>
  array is a \<open>RuleGroupICArray\<close>.
\<close>

fun icTree :: "RuleOrGroup \<Rightarrow> bool" where
  "icTree (Rule r) = True"
| "icTree (CombinatorString c) = True"
| "icTree (RuleGroup g rs) =
     (combinator g = None \<and> isRuleGroupICArray rs \<and> list_all icTree rs)"

text \<open>
  The invariant as the spec words it (3): the length is 0 or odd, even indices hold rules
  or groups, odd indices hold combinator strings, and the first and last elements of a
  non-empty array are rules or groups.
\<close>

definition alternates :: "RuleOrGroup list \<Rightarrow> bool" where
  "alternates rs =
     ((length rs = 0 \<or> odd (length rs))
      \<and> (\<forall>i < length rs. even i \<longrightarrow> isNode (rs ! i))
      \<and> (\<forall>i < length rs. odd i \<longrightarrow> \<not> isNode (rs ! i))
      \<and> (rs \<noteq> [] \<longrightarrow> isNode (hd rs) \<and> isNode (last rs)))"

section \<open>Properties of the Elasticsearch rule processor\<close>

lemma escapeSQ_string_nonempty: "s \<noteq> [] \<Longrightarrow> escapeSQ_string s \<noteq> []"
  by (cases s) (auto simp: escapeSQ_string_def escapeChar_def)

text \<open>
  Claim C3. A rule with \<open>valueSource\<close> \<open>field\<close> whose value is a non-empty string and whose
  operator is one of \<open>=\<close>, \<open>!=\<close>, \<open><\<close>, \<open><=\<close>, \<open>>\<close>, \<open>>=\<close> is rendered as the scripted
  comparison \<open>doc['<field>'] <op> doc['<value>']\<close> inside \<open>bool.filter.script.script\<close>, with
  \<open>=\<close> written \<open>==\<close>; it is never a term or a range. Field and value appear with their single
  quotes and backslashes escaped. The array view of a string is assumed to hold strings
  only, which is what lets the rule pass the processor's first check.
\<close>

theorem field_source_comparison_is_scripted:
  assumes vs: "valueSource r = Some VSField"
    and v: "val r = JStr s" and ne: "s \<noteq> []"
    and op: "operator r \<in> {''='', ''!='', ''<'', ''<='', ''>'', ''>=''}"
    and arr: "\<forall>v \<in> set (toArray h (JStr s)). is_string v"
  shows "defaultRuleProcessorElasticSearch h r parseNumbers =
           Inr (RQuery (BoolFilterScript
             (''doc['' @ [sq] @ escapeSQ_string (field r) @ [sq] @ ''] '' @
              (if operator r = ''='' then ''=='' else operator r) @
              '' doc['' @ [sq] @ escapeSQ_string s @ [sq] @ '']'')))"
proof -
  have mem: "operator r \<in> set comparisonOperators"
    using op by (auto simp: comparisonOperators_def)
  have "fieldSourceBranch h r = Some (Inr (RQuery (BoolFilterScript
          (docRef (escapeSQ_string (field r)) @ '' '' @
           (if operator r = ''='' then ''=='' else operator r) @ '' '' @
           docRef (escapeSQ_string s)))))"
    using arr mem escapeSQ_string_nonempty[OF ne]
    by (simp add: fieldSourceBranch_def v Let_def)
  then show ?thesis
    by (simp add: defaultRuleProcessorElasticSearch_def vs docRef_def)
qed

theorem field_source_comparison_is_scripted_witness:
  "valueSource (exampleRule ''='' (JStr ''size'') (Some VSField)) = Some VSField
   \<and> val (exampleRule ''='' (JStr ''size'') (Some VSField)) = JStr ''size''
   \<and> list_all is_string (toArray exampleHelpers (JStr ''size''))
   \<and> defaultRuleProcessorElasticSearch exampleHelpers
        (exampleRule ''='' (JStr ''size'') (Some VSField)) None =
      Inr (RQuery (BoolFilterScript
        (''doc['' @ [sq] @ ''age'' @ [sq] @ ''] == doc['' @ [sq] @ ''size'' @ [sq] @ '']'')))"
proof -
  let ?r = "exampleRule ''='' (JStr ''size'') (Some VSField)"
  have h1: "valueSource ?r = Some VSField" and h2: "val ?r = JStr ''size''"
    and h3: "''size'' \<noteq> []"
    and h4: "operator ?r \<in> {''='', ''!='', ''<'', ''<='', ''>'', ''>=''}"
    and h5: "\<forall>v \<in> set (toArray exampleHelpers (JStr ''size'')). is_string v"
    by (simp_all add: exampleRule_def exampleHelpers_def)
  have h6: "list_all is_string (toArray exampleHelpers (JStr ''size''))"
    using h5 by (simp add: list_all_iff)
  show ?thesis
    using h1 h2 h6 field_source_comparison_is_scripted[OF h1 h2 h3 h4 h5, of None]
    by (simp add: exampleRule_def escapeSQ_string_def escapeChar_def sq_def backslash_def)
qed

text \<open>
  With \<open>valueSource\<close> \<open>field\<close> a comparison never yields a term or a range: the rule is
  omitted, or rendered as a script, or \<open>escapeSQ\<close> throws on a value that is neither a string
  nor \<open>null\<close> nor \<open>undefined\<close>.
\<close>

lemma field_source_comparison_shape:
  assumes "valueSource r = Some VSField" and "operator r \<in> set comparisonOperators"
  shows "defaultRuleProcessorElasticSearch h r parseNumbers = Inr RFalse
       \<or> defaultRuleProcessorElasticSearch h r parseNumbers = Inl TypeError
       \<or> (\<exists>script. defaultRuleProcessorElasticSearch h r parseNumbers
                       = Inr (RQuery (BoolFilterScript script)))"
proof (cases "escapeSQ (val r)")
  case (Inl e)
  with assms show ?thesis
    by (cases e) (simp add: defaultRuleProcessorElasticSearch_def fieldSourceBranch_def Let_def)
next
  case (Inr v)
  with assms show ?thesis
    by (simp add: defaultRuleProcessorElasticSearch_def fieldSourceBranch_def Let_def)
qed

text \<open>
  Claim C10. With \<open>valueSource\<close> \<open>field\<close>, a value whose array view holds an element that is
  not a string makes the processor return \<open>false\<close>, whatever the operator: no script is built.
\<close>

theorem field_source_non_string_is_omitted:
  assumes "valueSource r = Some VSField"
    and "\<exists>v \<in> set (toArray h (val r)). \<not> is_string v"
  shows "defaultRuleProcessorElasticSearch h r parseNumbers = Inr RFalse"
  using assms by (simp add: defaultRuleProcessorElasticSearch_def fieldSourceBranch_def)

theorem field_source_non_string_is_omitted_witness:
  "valueSource (exampleRule ''='' (JArr [JStr ''size'', JNum (Fin 3)]) (Some VSField))
     = Some VSField
   \<and> (\<exists>v \<in> set (toArray exampleHelpers
                    (val (exampleRule ''='' (JArr [JStr ''size'', JNum (Fin 3)]) (Some VSField)))).
         \<not> is_string v)
   \<and> defaultRuleProcessorElasticSearch exampleHelpers
        (exampleRule ''='' (JArr [JStr ''size'', JNum (Fin 3)]) (Some VSField)) (Some True)
      = Inr RFalse"
proof -
  let ?r = "exampleRule ''='' (JArr [JStr ''size'', JNum (Fin 3)]) (Some VSField)"
  have h1: "valueSource ?r = Some VSField"
    and h2: "\<exists>v \<in> set (toArray exampleHelpers (val ?r)). \<not> is_string v"
    by (simp_all add: exampleRule_def exampleHelpers_def)
  show ?thesis
    using h1 h2 field_source_non_string_is_omitted[OF h1 h2, of "Some True"] by simp
qed

text \<open>
  Without \<open>valueSource\<close> \<open>field\<close> an operator outside the supported list reaches the final
  \<open>return false\<close>; with it, the first \<open>switch\<close> has no \<open>case\<close> for it either.
\<close>

lemma fieldSourceBranch_unsupported:
  "operator r \<notin> set supportedOperators \<Longrightarrow>
   fieldSourceBranch h r = None \<or> fieldSourceBranch h r = Some (Inr RFalse)"
  by (simp add: fieldSourceBranch_def supportedOperators_def comparisonOperators_def
      textOperators_def Let_def)

lemma valueSourceBranch_unsupported:
  "operator r \<notin> set supportedOperators \<Longrightarrow> valueSourceBranch h r pn = RFalse"
  by (simp add: valueSourceBranch_def supportedOperators_def Let_def)

lemma processor_unsupported:
  assumes "operator r \<notin> set supportedOperators"
  shows "defaultRuleProcessorElasticSearch h r pn = Inr RFalse"
  using fieldSourceBranch_unsupported[OF assms, of h]
    valueSourceBranch_unsupported[OF assms, of h pn]
  by (auto simp: defaultRuleProcessorElasticSearch_def)

lemma processor_in_empty:
  assumes "operator r = ''in'' \<or> operator r = ''notIn''" and "toArray h (val r) = []"
  shows "defaultRuleProcessorElasticSearch h r pn = Inr RFalse"
  using assms
  by (auto simp: defaultRuleProcessorElasticSearch_def fieldSourceBranch_def
      valueSourceBranch_def comparisonOperators_def Let_def)

lemma processor_between_invalid:
  assumes op: "operator r = ''between'' \<or> operator r = ''notBetween''"
    and inv: "\<not> hasTwoValidValues h r"
  shows "defaultRuleProcessorElasticSearch h r pn = Inr RFalse"
proof (cases "valueSource r = Some VSField")
  case True
  have "fieldSourceBranch h r = Some (Inr RFalse)"
    using op
  proof
    assume "operator r = ''between''"
    with inv True show ?thesis
      by (auto simp: fieldSourceBranch_def comparisonOperators_def hasTwoValidValues_def Let_def)
  next
    assume "operator r = ''notBetween''"
    with inv True show ?thesis
      by (auto simp: fieldSourceBranch_def comparisonOperators_def hasTwoValidValues_def Let_def)
  qed
  with True show ?thesis
    by (simp add: defaultRuleProcessorElasticSearch_def)
next
  case False
  have "valueSourceBranch h r pn = RFalse"
    using op
  proof
    assume "operator r = ''between''"
    with inv False show ?thesis
      by (simp add: valueSourceBranch_def hasTwoValidValues_def Let_def)
  next
    assume "operator r = ''notBetween''"
    with inv False show ?thesis
      by (simp add: valueSourceBranch_def hasTwoValidValues_def Let_def)
  qed
  with False show ?thesis
    by (simp add: defaultRuleProcessorElasticSearch_def)
qed

text \<open>
  Claim C4. The processor returns \<open>false\<close>, and throws nothing (the result is \<open>Inr\<close>), for
  a rule whose operator is not supported, for an \<open>in\<close>/\<open>notIn\<close> rule whose value array is
  empty, and for a \<open>between\<close>/\<open>notBetween\<close> rule that lacks two valid values.
\<close>

theorem unsupported_or_incomplete_rule_is_omitted:
  assumes "operator r \<notin> set supportedOperators
         \<or> (operator r \<in> {''in'', ''notIn''} \<and> toArray h (val r) = [])
         \<or> (operator r \<in> {''between'', ''notBetween''} \<and> \<not> hasTwoValidValues h r)"
  shows "defaultRuleProcessorElasticSearch h r parseNumbers = Inr RFalse"
  using assms processor_unsupported[of r h parseNumbers]
    processor_in_empty[of r h parseNumbers] processor_between_invalid[of r h parseNumbers]
  by auto

theorem unsupported_or_incomplete_rule_is_omitted_witness:
  "operator (exampleRule ''between'' (JArr [JStr ''7'', JStr []]) None)
      \<in> {''between'', ''notBetween''}
   \<and> \<not> hasTwoValidValues exampleHelpers (exampleRule ''between'' (JArr [JStr ''7'', JStr []]) None)
   \<and> defaultRuleProcessorElasticSearch exampleHelpers
        (exampleRule ''between'' (JArr [JStr ''7'', JStr []]) None) None = Inr RFalse"
proof -
  let ?r = "exampleRule ''between'' (JArr [JStr ''7'', JStr []]) None"
  have h: "operator ?r \<in> {''between'', ''notBetween''} \<and> \<not> hasTwoValidValues exampleHelpers ?r"
    by (simp add: exampleRule_def exampleHelpers_def hasTwoValidValues_def)
  then have "operator ?r \<notin> set supportedOperators
         \<or> (operator ?r \<in> {''in'', ''notIn''} \<and> toArray exampleHelpers (val ?r) = [])
         \<or> (operator ?r \<in> {''between'', ''notBetween''} \<and> \<not> hasTwoValidValues exampleHelpers ?r)"
    by blast
  from unsupported_or_incomplete_rule_is_omitted[OF this, of None] h show ?thesis
    by blast
qed

text \<open>
  With \<open>parseNumbers\<close> set, \<open>valueRenderer\<close> is the numeric coercion, unless the rule's value
  is a boolean; rendering twice, as \<open>in\<close> and \<open>notIn\<close> do, is rendering once when
  \<open>parseFloat\<close> leaves a number as it is.
\<close>

lemma valueRenderer_renderedAsNumber:
  "\<not> is_boolean value \<Longrightarrow> valueRenderer h value (Some True) v = renderedAsNumber h v"
  by (simp add: valueRenderer_def renderedAsNumber_def)

lemma renderedAsNumber_twice:
  assumes "\<forall>n. parseFloat h (JNum n) = n"
  shows "renderedAsNumber h (renderedAsNumber h v) = renderedAsNumber h v"
  using assms by (simp add: renderedAsNumber_def)

lemma processor_value_source:
  "valueSource r \<noteq> Some VSField \<Longrightarrow>
   defaultRuleProcessorElasticSearch h r pn = Inr (valueSourceBranch h r pn)"
  by (simp add: defaultRuleProcessorElasticSearch_def)

lemma parseNumbers_comparison:
  assumes "\<not> is_boolean (val r)"
  shows "(operator r = ''='' \<longrightarrow>
            valueSourceBranch h r (Some True) = RQuery (ESTerm (field r) (renderedAsNumber h (val r))))
       \<and> (operator r = ''!='' \<longrightarrow>
            valueSourceBranch h r (Some True)
              = RQuery (BoolMustNot (ESTerm (field r) (renderedAsNumber h (val r)))))
       \<and> (operator r = ''<'' \<longrightarrow>
            valueSourceBranch h r (Some True)
              = RQuery (ESRange (field r) [(lt, renderedAsNumber h (val r))]))
       \<and> (operator r = ''<='' \<longrightarrow>
            valueSourceBranch h r (Some True)
              = RQuery (ESRange (field r) [(lte, renderedAsNumber h (val r))]))
       \<and> (operator r = ''>'' \<longrightarrow>
            valueSourceBranch h r (Some True)
              = RQuery (ESRange (field r) [(gt, renderedAsNumber h (val r))]))
       \<and> (operator r = ''>='' \<longrightarrow>
            valueSourceBranch h r (Some True)
              = RQuery (ESRange (field r) [(gte, renderedAsNumber h (val r))]))"
  using assms
  by (simp add: valueSourceBranch_def valueRenderer_renderedAsNumber rangeOperatorMap_def Let_def)

lemma parseNumbers_in:
  assumes nb: "\<not> is_boolean (val r)" and pf: "\<forall>n. parseFloat h (JNum n) = n"
    and ne: "toArray h (val r) \<noteq> []"
  shows "(operator r = ''in'' \<longrightarrow>
            valueSourceBranch h r (Some True)
              = RQuery (BoolShouldArray
                  (map (\<lambda>v. ESTerm (field r) (renderedAsNumber h v)) (toArray h (val r)))))
       \<and> (operator r = ''notIn'' \<longrightarrow>
            valueSourceBranch h r (Some True)
              = RQuery (BoolMustNotArray
                  (map (\<lambda>v. ESTerm (field r) (renderedAsNumber h v)) (toArray h (val r)))))"
  using nb ne
  by (simp add: valueSourceBranch_def valueRenderer_renderedAsNumber Let_def comp_def
      renderedAsNumber_twice[OF pf])

lemma parseNumbers_regexp:
  "(operator r \<in> {''contains'', ''doesNotContain''} \<longrightarrow>
      valueSourceBranch h r pn = RQuery (negateIfNotOp (operator r) (ESRegexp (field r) (val r))))
 \<and> (operator r \<in> {''beginsWith'', ''doesNotBeginWith''} \<longrightarrow>
      valueSourceBranch h r pn = RQuery (negateIfNotOp (operator r)
        (ESRegexp (field r) (JStr (''^'' @ templateString (numberToString h) (val r))))))
 \<and> (operator r \<in> {''endsWith'', ''doesNotEndWith''} \<longrightarrow>
      valueSourceBranch h r pn = RQuery (negateIfNotOp (operator r)
        (ESRegexp (field r) (JStr (templateString (numberToString h) (val r) @ ''$'')))))"
  by (auto simp: valueSourceBranch_def Let_def)

lemma parseNumbers_between_mixed:
  assumes op: "operator r \<in> {''between'', ''notBetween''}"
    and len: "length (toArray h (val r)) \<ge> 2"
    and valid: "isValidValue h (toArray h (val r) ! 0)" "isValidValue h (toArray h (val r) ! 1)"
    and mixed: "\<not> (shouldRenderAsNumber h (toArray h (val r) ! 0) (Some True)
                 \<and> shouldRenderAsNumber h (toArray h (val r) ! 1) (Some True))"
  shows "valueSourceBranch h r pn = RQuery (negateIfNotOp (operator r)
           (ESRange (field r) [(gte, toArray h (val r) ! 0), (lte, toArray h (val r) ! 1)]))"
proof -
  from op have "operator r = ''between'' \<or> operator r = ''notBetween''" by simp
  then show ?thesis
  proof
    assume "operator r = ''between''"
    with len valid mixed show ?thesis by (auto simp: valueSourceBranch_def Let_def)
  next
    assume "operator r = ''notBetween''"
    with len valid mixed show ?thesis by (auto simp: valueSourceBranch_def Let_def)
  qed
qed

text \<open>
  Claim C8, as amended. With \<open>parseNumbers\<close> set, for a rule that compares against a value
  (not a field) and whose value is not a boolean: for \<open>=\<close>, \<open>!=\<close>, \<open><\<close>, \<open><=\<close>, \<open>>\<close>, \<open>>=\<close> the
  value of the term or range is \<open>parseFloat\<close> of the rule's value when the value passes the
  numeric test, and the value itself when it does not; for \<open>in\<close> and \<open>notIn\<close> the same holds
  of every element of the value's array view, given that \<open>parseFloat\<close> leaves a number as
  it is. The other operators do not coerce: \<open>contains\<close>, \<open>beginsWith\<close>, \<open>endsWith\<close> and
  their negations emit a regular expression on the value as it is, and \<open>between\<close> and
  \<open>notBetween\<close> keep both bounds as they are unless both pass the numeric test.
\<close>

theorem parseNumbers_rendering_by_operator:
  assumes vs: "valueSource r \<noteq> Some VSField" and nb: "\<not> is_boolean (val r)"
  shows "let res = defaultRuleProcessorElasticSearch h r (Some True);
             v = renderedAsNumber h (val r);
             arr = toArray h (val r);
             text = templateString (numberToString h) (val r)
         in (operator r = ''='' \<longrightarrow> res = Inr (RQuery (ESTerm (field r) v)))
          \<and> (operator r = ''!='' \<longrightarrow> res = Inr (RQuery (BoolMustNot (ESTerm (field r) v))))
          \<and> (operator r = ''<'' \<longrightarrow> res = Inr (RQuery (ESRange (field r) [(lt, v)])))
          \<and> (operator r = ''<='' \<longrightarrow> res = Inr (RQuery (ESRange (field r) [(lte, v)])))
          \<and> (operator r = ''>'' \<longrightarrow> res = Inr (RQuery (ESRange (field r) [(gt, v)])))
          \<and> (operator r = ''>='' \<longrightarrow> res = Inr (RQuery (ESRange (field r) [(gte, v)])))
          \<and> (operator r = ''in'' \<and> arr \<noteq> [] \<and> (\<forall>n. parseFloat h (JNum n) = n) \<longrightarrow>
                res = Inr (RQuery (BoolShouldArray
                        (map (\<lambda>x. ESTerm (field r) (renderedAsNumber h x)) arr))))
          \<and> (operator r = ''notIn'' \<and> arr \<noteq> [] \<and> (\<forall>n. parseFloat h (JNum n) = n) \<longrightarrow>
                res = Inr (RQuery (BoolMustNotArray
                        (map (\<lambda>x. ESTerm (field r) (renderedAsNumber h x)) arr))))
          \<and> (operator r \<in> {''contains'', ''doesNotContain''} \<longrightarrow>
                res = Inr (RQuery (negateIfNotOp (operator r) (ESRegexp (field r) (val r)))))
          \<and> (operator r \<in> {''beginsWith'', ''doesNotBeginWith''} \<longrightarrow>
                res = Inr (RQuery (negateIfNotOp (operator r)
                        (ESRegexp (field r) (JStr (''^'' @ text))))))
          \<and> (operator r \<in> {''endsWith'', ''doesNotEndWith''} \<longrightarrow>
                res = Inr (RQuery (negateIfNotOp (operator r)
                        (ESRegexp (field r) (JStr (text @ ''$''))))))
          \<and> (operator r \<in> {''between'', ''notBetween''} \<and> length arr \<ge> 2
               \<and> isValidValue h (arr ! 0) \<and> isValidValue h (arr ! 1)
               \<and> \<not> (shouldRenderAsNumber h (arr ! 0) (Some True)
                      \<and> shouldRenderAsNumber h (arr ! 1) (Some True)) \<longrightarrow>
                res = Inr (RQuery (negateIfNotOp (operator r)
                        (ESRange (field r) [(gte, arr ! 0), (lte, arr ! 1)]))))"
  unfolding Let_def processor_value_source[OF vs]
  using parseNumbers_comparison[OF nb, of h] parseNumbers_in[OF nb, of h]
    parseNumbers_regexp[of r h "Some True"] parseNumbers_between_mixed[of r h "Some True"]
  by (intro conjI impI; simp)

theorem parseNumbers_rendering_by_operator_witness:
  "valueSource (exampleRule ''<='' (JStr ''12'') None) \<noteq> Some VSField
   \<and> \<not> is_boolean (val (exampleRule ''<='' (JStr ''12'') None))
   \<and> shouldRenderAsNumber exampleHelpers (JStr ''12'') (Some True)
   \<and> defaultRuleProcessorElasticSearch exampleHelpers (exampleRule ''<='' (JStr ''12'') None)
        (Some True) = Inr (RQuery (ESRange ''age'' [(lte, JNum (Fin 12))]))
   \<and> defaultRuleProcessorElasticSearch exampleHelpers
        (exampleRule ''in'' (JArr [JStr ''12'', JStr ''abc'']) None) (Some True)
      = Inr (RQuery (BoolShouldArray
              [ESTerm ''age'' (JNum (Fin 12)), ESTerm ''age'' (JStr ''abc'')]))"
proof -
  let ?r = "exampleRule ''<='' (JStr ''12'') None"
  let ?q = "exampleRule ''in'' (JArr [JStr ''12'', JStr ''abc'']) None"
  have h1: "valueSource ?r \<noteq> Some VSField" and h2: "\<not> is_boolean (val ?r)"
    and q1: "valueSource ?q \<noteq> Some VSField" and q2: "\<not> is_boolean (val ?q)"
    by (simp_all add: exampleRule_def)
  have h3: "shouldRenderAsNumber exampleHelpers (JStr ''12'') (Some True)"
    and h4: "renderedAsNumber exampleHelpers (JStr ''12'') = JNum (Fin 12)"
    and h5: "renderedAsNumber exampleHelpers (JStr ''abc'') = JStr ''abc''"
    and h6: "toArray exampleHelpers (JArr [JStr ''12'', JStr ''abc'']) = [JStr ''12'', JStr ''abc'']"
    and h7: "\<forall>n. parseFloat exampleHelpers (JNum n) = n"
    by (simp_all add: exampleHelpers_def renderedAsNumber_def)
  have r5: "operator ?r = ''<=''" "field ?r = ''age''" "val ?r = JStr ''12''"
    and q5: "operator ?q = ''in''" "field ?q = ''age''"
            "val ?q = JArr [JStr ''12'', JStr ''abc'']"
    by (simp_all add: exampleRule_def)
  have "defaultRuleProcessorElasticSearch exampleHelpers ?r (Some True)
          = Inr (RQuery (ESRange ''age'' [(lte, JNum (Fin 12))]))"
    using parseNumbers_rendering_by_operator[OF h1 h2, of exampleHelpers]
    by (simp add: Let_def r5 h4)
  moreover have "defaultRuleProcessorElasticSearch exampleHelpers ?q (Some True)
          = Inr (RQuery (BoolShouldArray
                  [ESTerm ''age'' (JNum (Fin 12)), ESTerm ''age'' (JStr ''abc'')]))"
    using parseNumbers_rendering_by_operator[OF q1 q2, of exampleHelpers] h7
    by (simp add: Let_def q5 h4 h5 h6)
  ultimately show ?thesis using h1 h2 h3 by simp
qed

text \<open>
  The claim as first worded fails: with \<open>parseNumbers\<close> set, the string \<open>12\<close> passes the
  numeric test and is still emitted as a string by \<open>contains\<close>, and as the lower bound of
  \<open>between\<close> when the upper bound \<open>abc\<close> is not numeric.
\<close>

theorem parseNumbers_numeric_string_kept_counterexample:
  "shouldRenderAsNumber exampleHelpers (JStr ''12'') (Some True)
   \<and> JStr ''12'' \<noteq> JNum (parseFloat exampleHelpers (JStr ''12''))
   \<and> defaultRuleProcessorElasticSearch exampleHelpers
        (exampleRule ''contains'' (JStr ''12'') None) (Some True)
      = Inr (RQuery (ESRegexp ''age'' (JStr ''12'')))
   \<and> defaultRuleProcessorElasticSearch exampleHelpers
        (exampleRule ''between'' (JArr [JStr ''12'', JStr ''abc'']) None) (Some True)
      = Inr (RQuery (ESRange ''age'' [(gte, JStr ''12''), (lte, JStr ''abc'')]))"
  by (simp add: defaultRuleProcessorElasticSearch_def valueSourceBranch_def exampleRule_def
      exampleHelpers_def negateIfNotOp_def isNotOp_def startsWithStr_def lowerChar_def Let_def)

lemma js_le_if_not_greater: "a \<noteq> NaN \<Longrightarrow> b \<noteq> NaN \<Longrightarrow> \<not> js_lt b a \<Longrightarrow> js_le a b"
  by (cases a; cases b) (auto simp: js_le_def)

lemma js_lt_imp_le: "js_lt b a \<Longrightarrow> js_le b a"
  by (cases a; cases b) (auto simp: js_le_def)

text \<open>
  Claim C9. A \<open>between\<close>/\<open>notBetween\<close> rule that compares against values, whose first two
  values are valid and both pass the numeric test, is rendered as a range whose \<open>gte\<close> bound
  is the smaller and whose \<open>lte\<close> bound is the larger of the two parsed numbers: bounds
  given in descending order are swapped. The numeric test is called with \<open>true\<close>, so this
  holds for every setting of \<open>parseNumbers\<close>. The two parsed numbers are taken not to be
  \<open>NaN\<close>, for which smaller and larger are not defined.
\<close>

theorem between_numeric_bounds_ascending:
  assumes vs: "valueSource r \<noteq> Some VSField"
    and op: "operator r \<in> {''between'', ''notBetween''}"
    and len: "length (toArray h (val r)) \<ge> 2"
    and valid: "isValidValue h (toArray h (val r) ! 0)" "isValidValue h (toArray h (val r) ! 1)"
    and numeric: "shouldRenderAsNumber h (toArray h (val r) ! 0) (Some True)"
                 "shouldRenderAsNumber h (toArray h (val r) ! 1) (Some True)"
    and a: "parseFloat h (toArray h (val r) ! 0) = a"
    and b: "parseFloat h (toArray h (val r) ! 1) = b"
    and nn: "a \<noteq> NaN" "b \<noteq> NaN"
  shows "\<exists>lo hi. defaultRuleProcessorElasticSearch h r parseNumbers =
            Inr (RQuery (negateIfNotOp (operator r)
                   (ESRange (field r) [(gte, JNum lo), (lte, JNum hi)])))
          \<and> js_le lo hi \<and> ((lo = a \<and> hi = b) \<or> (lo = b \<and> hi = a))
          \<and> (js_lt b a \<longrightarrow> lo = b \<and> hi = a)"
proof -
  have res: "defaultRuleProcessorElasticSearch h r parseNumbers =
      Inr (RQuery (negateIfNotOp (operator r)
        (ESRange (field r) (if js_lt b a then [(gte, JNum b), (lte, JNum a)]
                            else [(gte, JNum a), (lte, JNum b)]))))"
    using vs op len valid numeric a b
    by (auto simp: defaultRuleProcessorElasticSearch_def valueSourceBranch_def Let_def)
  show ?thesis
  proof (cases "js_lt b a")
    case True
    with res js_lt_imp_le[OF True] show ?thesis by auto
  next
    case False
    with res js_le_if_not_greater[OF nn False] show ?thesis by auto
  qed
qed

theorem between_numeric_bounds_ascending_witness:
  "valueSource (exampleRule ''notBetween'' (JArr [JStr ''12'', JStr ''7'']) None) \<noteq> Some VSField
   \<and> js_lt (Fin 7) (Fin 12)
   \<and> defaultRuleProcessorElasticSearch exampleHelpers
        (exampleRule ''notBetween'' (JArr [JStr ''12'', JStr ''7'']) None) None =
      Inr (RQuery (BoolMustNot (ESRange ''age'' [(gte, JNum (Fin 7)), (lte, JNum (Fin 12))])))"
proof -
  let ?r = "exampleRule ''notBetween'' (JArr [JStr ''12'', JStr ''7'']) None"
  have h1: "valueSource ?r \<noteq> Some VSField"
    and h2: "operator ?r \<in> {''between'', ''notBetween''}"
    and h3: "length (toArray exampleHelpers (val ?r)) \<ge> 2"
    and h4: "isValidValue exampleHelpers (toArray exampleHelpers (val ?r) ! 0)"
    and h5: "isValidValue exampleHelpers (toArray exampleHelpers (val ?r) ! 1)"
    and h6: "shouldRenderAsNumber exampleHelpers (toArray exampleHelpers (val ?r) ! 0) (Some True)"
    and h7: "shouldRenderAsNumber exampleHelpers (toArray exampleHelpers (val ?r) ! 1) (Some True)"
    and h8: "parseFloat exampleHelpers (toArray exampleHelpers (val ?r) ! 0) = Fin 12"
    and h9: "parseFloat exampleHelpers (toArray exampleHelpers (val ?r) ! 1) = Fin 7"
    and h10: "Fin 12 \<noteq> NaN" and h11: "Fin 7 \<noteq> NaN"
    by (simp_all add: exampleRule_def exampleHelpers_def)
  have lt: "js_lt (Fin 7) (Fin 12)" by simp
  have neg: "negateIfNotOp (operator ?r) q = BoolMustNot q" for q
    by (simp add: exampleRule_def negateIfNotOp_def isNotOp_def startsWithStr_def lowerChar_def)
  have fld: "field ?r = ''age''" by (simp add: exampleRule_def)
  from between_numeric_bounds_ascending[OF h1 h2 h3 h4 h5 h6 h7 h8 h9 h10 h11, of None]
  obtain lo hi where
    res: "defaultRuleProcessorElasticSearch exampleHelpers ?r None =
          Inr (RQuery (negateIfNotOp (operator ?r) (ESRange (field ?r) [(gte, JNum lo), (lte, JNum hi)])))"
    and sw: "js_lt (Fin 7) (Fin 12) \<longrightarrow> lo = Fin 7 \<and> hi = Fin 12"
    by blast
  from sw lt have "lo = Fin 7" "hi = Fin 12" by simp_all
  with res h1 lt show ?thesis by (simp only: neg fld simp_thms)
qed

section \<open>Properties of the structural operations\<close>



lemma findPath_unresolved: "elementAt p q = None \<Longrightarrow> findPath p q = None"
  by (simp add: findPath_def)










text \<open>
  In \<open>useRuleDnD.ts\<close> the drop test refuses a target that lies below the dragged item,
  before any move is requested.
\<close>

lemma canDrop_rejects_descendant:
  "isAncestor (itemPath item) hoverPath \<Longrightarrow> \<not> useRuleDnD_canDrop cd ic hoverPath item"
  by (simp add: useRuleDnD_canDrop_def Let_def)

text \<open>
  Claim C7. When \<open>oldPath\<close> is a strict prefix of \<open>newPath\<close>, \<open>move\<close> returns the tree
  unchanged, for every tree and all options: a group never ends up inside itself.
\<close>

theorem move_into_descendant_is_noop:
  assumes "isAncestor oldPath newPath"
  shows "move P query oldPath newPath opts = query"
  using assms by (simp add: move_def)

theorem move_into_descendant_is_noop_witness:
  "isAncestor [1] [1, 0]
   \<and> move exampleMoveParams exampleQuery [1] [1, 0] \<lparr>combinators = None, clone = None\<rparr>
       = exampleQuery"
proof -
  have h: "isAncestor [1] [1, 0]" by (simp add: isAncestor_def)
  from move_into_descendant_is_noop[OF h] h show ?thesis by simp
qed

section \<open>Properties of the export to SQL\<close>

text \<open>
  Claim C6. \<open>formatQuery({combinator: "and", rules: []}, {format: "sql"})\<close> is the fallback
  expression \<open>(1 = 1)\<close>: the group has no usable child.
\<close>

theorem formatQuery_sql_empty_group:
  "formatQuery_sql S sqlOptions (plainGroup ''and'' []) = ''(1 = 1)''"
  by (simp add: formatQuery_sql_def plainGroup_def sqlOptions_def fallbackOf_def)

section \<open>Properties of the independent-combinator invariant\<close>

lemma combinatorPairs_iff:
  "combinatorPairs rs = (even (length rs) \<and> (\<forall>i < length rs. isNode (rs ! i) = odd i))"
proof (induction rs rule: combinatorPairs.induct)
  case 1
  show ?case by simp
next
  case (2 x)
  show ?case by simp
next
  case (3 c x rest)
  show ?case
    by (simp add: "3.IH" All_less_Suc2) blast
qed

lemma isRuleGroupICArray_iff:
  "isRuleGroupICArray rs =
     ((rs = [] \<or> odd (length rs)) \<and> (\<forall>i < length rs. isNode (rs ! i) = even i))"
proof (cases rs)
  case Nil
  then show ?thesis by simp
next
  case (Cons x rest)
  then show ?thesis
    by (simp add: combinatorPairs_iff All_less_Suc2) blast
qed

text \<open>
  The arrays of the type \<open>RuleGroupICArray\<close> are exactly the arrays that satisfy the
  invariant in the spec's words.
\<close>

lemma isRuleGroupICArray_alternates: "isRuleGroupICArray rs = alternates rs"
proof (cases "rs = []")
  case True
  then show ?thesis by (simp add: alternates_def)
next
  case False
  have "isNode (hd rs) \<and> isNode (last rs)" if a: "isRuleGroupICArray rs"
  proof -
    from a have o: "odd (length rs)" and n: "\<forall>i < length rs. isNode (rs ! i) = even i"
      using False by (simp_all add: isRuleGroupICArray_iff)
    have "isNode (rs ! 0)" using n False by simp
    moreover have "isNode (rs ! (length rs - 1))"
      using n o False by simp
    ultimately show ?thesis using False by (simp add: hd_conv_nth last_conv_nth)
  qed
  then show ?thesis
    using False by (auto simp: alternates_def isRuleGroupICArray_iff)
qed

text \<open>Replacing an element by one of the same kind keeps the shape of the array.\<close>

lemma isRuleGroupICArray_update:
  assumes "isRuleGroupICArray rs" and "i < length rs" and "isNode y = isNode (rs ! i)"
  shows "isRuleGroupICArray (rs[i := y])"
  using assms by (auto simp: isRuleGroupICArray_iff nth_list_update)

lemma replaceAt_icTree:
  assumes f: "\<And>e. icTree e \<Longrightarrow> icTree (f e)" and k: "\<And>e. isNode (f e) = isNode e"
  shows "icTree q \<Longrightarrow> icTree (replaceAt p f q) \<and> isNode (replaceAt p f q) = isNode q"
proof (induction p arbitrary: q)
  case Nil
  then show ?case using f k by simp
next
  case (Cons i p)
  show ?case
  proof (cases q)
    case (RuleGroup g rs)
    show ?thesis
    proof (cases "i < length rs")
      case True
      let ?y = "replaceAt p f (rs ! i)"
      from Cons.prems RuleGroup have g: "combinator g = None" and arr: "isRuleGroupICArray rs"
        and all: "list_all icTree rs" by simp_all
      from all True have "icTree (rs ! i)" by (simp add: list_all_length)
      then have y: "icTree ?y" "isNode ?y = isNode (rs ! i)" using Cons.IH by simp_all
      have "isRuleGroupICArray (rs[i := ?y])"
        using arr True y(2) by (rule isRuleGroupICArray_update)
      moreover have "list_all icTree (rs[i := ?y])"
        using all y(1) True by (auto simp: list_all_length nth_list_update)
      ultimately show ?thesis using RuleGroup True g by simp
    next
      case False
      with RuleGroup Cons.prems show ?thesis by simp
    qed
  next
    case (Rule r)
    then show ?thesis by simp
  next
    case (CombinatorString c)
    then show ?thesis by simp
  qed
qed

lemma isRuleGroupICArray_append:
  assumes "isRuleGroupICArray rs" and "rs \<noteq> []" and "isNode x"
  shows "isRuleGroupICArray (rs @ [CombinatorString c, x])"
  using assms by (auto simp: isRuleGroupICArray_iff nth_append less_Suc_eq)

lemma appendChild_icTree:
  assumes "icTree x" and "isNode x" and "icTree e"
  shows "icTree (appendChild c x e)"
proof (cases e)
  case (RuleGroup g rs)
  with assms(3) have g: "combinator g = None" and arr: "isRuleGroupICArray rs"
    and all: "list_all icTree rs" by simp_all
  show ?thesis
  proof (cases "rs = []")
    case True
    with RuleGroup g assms show ?thesis by simp
  next
    case False
    with RuleGroup g all assms isRuleGroupICArray_append[OF arr False assms(2), of c]
    show ?thesis by simp
  qed
qed simp_all

lemma appendChild_isNode: "isNode (appendChild c x e) = isNode e"
  by (cases e) simp_all

text \<open>
  \<open>add\<close> keeps a tree in independent-combinator form, when the item added is a rule or a
  group in that form.
\<close>

lemma add_icTree:
  assumes "icTree query" and "icTree x" and "isNode x"
  shows "icTree (add query x p opts)"
  unfolding add_def
  using replaceAt_icTree[of "appendChild (getFirstOption (combinators opts)) x" query p]
    appendChild_icTree[OF assms(2,3)] appendChild_isNode assms(1)
  by blast

lemma isRuleGroupICArray_drop2:
  "isRuleGroupICArray rs \<Longrightarrow> isRuleGroupICArray (drop 2 rs)"
proof (cases rs)
  case Nil
  then show ?thesis by simp
next
  case (Cons x rest)
  assume "isRuleGroupICArray rs"
  with Cons show ?thesis
    by (cases rest rule: combinatorPairs.cases) simp_all
qed

lemma isRuleGroupICArray_cut:
  assumes arr: "isRuleGroupICArray rs" and i: "i < length rs" "0 < i" and n: "isNode (rs ! i)"
  shows "isRuleGroupICArray (take (i - 1) rs @ drop (Suc i) rs)"
proof -
  from arr i have o: "odd (length rs)" and a: "\<forall>j < length rs. isNode (rs ! j) = even j"
    by (auto simp: isRuleGroupICArray_iff)
  from a i n have e: "even i" by simp
  with i obtain k where k: "i = Suc (Suc k)" "even k"
    by (cases i; cases "i - 1") auto
  let ?xs = "take (i - 1) rs @ drop (Suc i) rs"
  have len: "length ?xs = length rs - 2" using i k by simp
  have O: "odd (length ?xs)"
    unfolding len using o i k by (cases "length rs"; cases "length rs - 1") auto
  have N: "isNode (?xs ! j) = even j" if j: "j < length ?xs" for j
  proof (cases "j < i - 1")
    case True
    then show ?thesis using a i j by (simp add: nth_append)
  next
    case False
    from j have j': "j < length rs - 2" by (simp only: len)
    from False have "?xs ! j = rs ! (j + 2)"
      using i j' k by (simp add: nth_append min_def)
    then show ?thesis using a j' by simp
  qed
  show ?thesis
    by (subst isRuleGroupICArray_iff) (use O N in blast)
qed

lemma removeChild_icTree:
  assumes "icTree e"
  shows "icTree (removeChild i e)"
proof (cases e)
  case (RuleGroup g rs)
  with assms have g: "combinator g = None" and arr: "isRuleGroupICArray rs"
    and all: "list_all icTree rs" by simp_all
  have d: "list_all icTree (drop n rs)" and t: "list_all icTree (take n rs)" for n
    using all by (auto simp: list_all_iff dest: in_set_dropD in_set_takeD)
  show ?thesis
  proof (cases "i < length rs \<and> isNode (rs ! i)")
    case False
    with RuleGroup assms show ?thesis by auto
  next
    case True
    then have c: "i < length rs" "isNode (rs ! i)" by simp_all
    show ?thesis
    proof (cases "i = 0")
      case True
      with RuleGroup g c d isRuleGroupICArray_drop2[OF arr] show ?thesis by simp
    next
      case False
      with c have "isRuleGroupICArray (take (i - 1) rs @ drop (Suc i) rs)"
        by (intro isRuleGroupICArray_cut[OF arr]) simp_all
      with RuleGroup g c d t False show ?thesis by simp
    qed
  qed
qed simp_all

lemma removeChild_isNode: "isNode (removeChild i e) = isNode e"
  by (cases e) simp_all

text \<open>\<open>remove\<close> keeps a tree in independent-combinator form.\<close>

lemma remove_icTree:
  assumes "icTree query"
  shows "icTree (remove query p)"
  unfolding remove_def
  using replaceAt_icTree[of "removeChild (last p)" query "getParentPath p"]
    removeChild_icTree removeChild_isNode assms
  by auto

end
